theory Spec2Isabelle
  imports Complex_Main
begin

section \<open>Data model\<close>

text \<open>
  The program \<^verbatim>\<open>controller_relative_to_tracker.cpp\<close> computes with C++ \<^verbatim>\<open>double\<close>
  values. They are modelled as mathematical reals: every arithmetic operation of the
  source is the exact operation on \<^typ>\<open>real\<close>, written in the order in which the source
  evaluates it. Rounding, overflow to infinity and NaN are outside this model. The
  theorems below say which expression the source evaluates, or state an identity under an
  exact condition on the input; none of them bounds a rounding error. Where a theorem
  equates two differently grouped expressions, as the closed form of the relative position
  does, the equality is that of the exact operations. The associativity of composition
  for arbitrary transforms is left out: there the rounded sums of the program differ
  where the exact ones agree.

  A fixed-size array is a list; \<^verbatim>\<open>struct Transform { double matrix[3][4]; }\<close> is a record
  whose single field is a list of rows. The C++ type fixes the shape of the array; in the
  model the shape is the predicate \<open>wf_Transform\<close>.
\<close>

record Transform =
  matrix :: "real list list"

definition wf_Transform :: "Transform \<Rightarrow> bool" where
  "wf_Transform T \<longleftrightarrow>
     length (matrix T) = 3 \<and> list_all (\<lambda>row. length row = 4) (matrix T)"

text \<open>The array with the twelve given entries, row by row.\<close>

abbreviation T34 ::
    "real \<Rightarrow> real \<Rightarrow> real \<Rightarrow> real \<Rightarrow> real \<Rightarrow> real \<Rightarrow> real \<Rightarrow> real \<Rightarrow>
     real \<Rightarrow> real \<Rightarrow> real \<Rightarrow> real \<Rightarrow> Transform" where
  "T34 a b c d e f g h i j k l \<equiv> \<lparr>matrix = [[a, b, c, d], [e, f, g, h], [i, j, k, l]]\<rparr>"

text \<open>Reading \<^verbatim>\<open>T.matrix[i][j]\<close> and the assignment \<^verbatim>\<open>T.matrix[i][j] = v\<close>.\<close>

definition rd :: "Transform \<Rightarrow> nat \<Rightarrow> nat \<Rightarrow> real" where
  "rd T i j = matrix T ! i ! j"

definition wr :: "Transform \<Rightarrow> nat \<Rightarrow> nat \<Rightarrow> real \<Rightarrow> Transform" where
  "wr T i j v = T\<lparr>matrix := (matrix T)[i := (matrix T ! i)[j := v]]\<rparr>"

text \<open>
  The counting loop \<^verbatim>\<open>for (int i = lo; i < n; i++) body\<close>, threading the state that the
  body updates. None of the loops of the program assigns to its counter.
\<close>

function for_loop :: "nat \<Rightarrow> nat \<Rightarrow> (nat \<Rightarrow> 's \<Rightarrow> 's) \<Rightarrow> 's \<Rightarrow> 's" where
  "for_loop i n body s = (if i < n then for_loop (Suc i) n body (body i s) else s)"
  by pat_completeness auto
termination
  by (relation "measure (\<lambda>(i, n, body, s). n - i)") auto

declare for_loop.simps [simp del]

section \<open>The operations of the source\<close>

text \<open>
  Every function of the source that writes through an output parameter takes the previous
  contents of that parameter as its last argument and returns the new contents.
\<close>

definition PoseQuatToMatrix :: "real list \<Rightarrow> real list \<Rightarrow> Transform \<Rightarrow> Transform" where
  "PoseQuatToMatrix pose quat transform =
     (let w = quat ! 0;
          x = quat ! 1;
          y = quat ! 2;
          z = quat ! 3;
          transform = wr transform 0 0 (1 - 2*y*y - 2*z*z);
          transform = wr transform 0 1 (2*x*y - 2*w*z);
          transform = wr transform 0 2 (2*x*z + 2*w*y);
          transform = wr transform 0 3 (pose ! 0);
          transform = wr transform 1 0 (2*x*y + 2*w*z);
          transform = wr transform 1 1 (1 - 2*x*x - 2*z*z);
          transform = wr transform 1 2 (2*y*z - 2*w*x);
          transform = wr transform 1 3 (pose ! 1);
          transform = wr transform 2 0 (2*x*z - 2*w*y);
          transform = wr transform 2 1 (2*y*z + 2*w*x);
          transform = wr transform 2 2 (1 - 2*x*x - 2*y*y);
          transform = wr transform 2 3 (pose ! 2)
      in transform)"

definition InvertTransform :: "Transform \<Rightarrow> Transform \<Rightarrow> Transform" where
  "InvertTransform input output =
     (let output = for_loop 0 3 (\<lambda>i output.
                     for_loop 0 3 (\<lambda>j output. wr output i j (rd input j i)) output) output;
          output = for_loop 0 3 (\<lambda>i output.
                     let output = wr output i 3 0 in
                     for_loop 0 3 (\<lambda>j output.
                       wr output i 3 (rd output i 3 - rd output i j * rd input j 3)) output)
                     output
      in output)"

definition MultiplyTransforms :: "Transform \<Rightarrow> Transform \<Rightarrow> Transform \<Rightarrow> Transform" where
  "MultiplyTransforms t1 t2 result =
     (let result = for_loop 0 3 (\<lambda>i result.
                     for_loop 0 3 (\<lambda>j result.
                       let result = wr result i j 0 in
                       for_loop 0 3 (\<lambda>k result.
                         wr result i j (rd result i j + rd t1 i k * rd t2 k j)) result)
                       result) result;
          result = for_loop 0 3 (\<lambda>i result.
                     let result = wr result i 3 (rd t1 i 3) in
                     for_loop 0 3 (\<lambda>j result.
                       wr result i 3 (rd result i 3 + rd t1 i j * rd t2 j 3)) result)
                     result
      in result)"

definition ExtractPosition :: "Transform \<Rightarrow> real list \<Rightarrow> real list" where
  "ExtractPosition transform position =
     (let position = position[0 := rd transform 0 3];
          position = position[1 := rd transform 1 3];
          position = position[2 := rd transform 2 3]
      in position)"

text \<open>
  The tracking provider \<^verbatim>\<open>CHtc_Vive_Tracker\<close> is declared in a header that is not part of
  the example; it is a parameter of the model. A provider maps a device name to the
  outcome of \<^verbatim>\<open>GetDevicePoseQuaternion(name, pose, quat)\<close>: the returned flag and the
  contents of the two buffers after the call. Both queries of one evaluation read the same
  provider.
\<close>

type_synonym provider = "string \<Rightarrow> bool \<times> real list \<times> real list"

text \<open>
  The four local \<^verbatim>\<open>Transform\<close> variables of \<^verbatim>\<open>ComputeRelativePosition\<close> are declared without
  an initialiser. Their contents at declaration are arguments of the model.
\<close>

record locals =
  T_world_controller :: Transform
  T_world_tracker :: Transform
  T_tracker_world :: Transform
  T_tracker_controller :: Transform

definition wf_locals :: "locals \<Rightarrow> bool" where
  "wf_locals L \<longleftrightarrow>
     wf_Transform (T_world_controller L) \<and> wf_Transform (T_world_tracker L) \<and>
     wf_Transform (T_tracker_world L) \<and> wf_Transform (T_tracker_controller L)"

text \<open>
  \<^verbatim>\<open>ComputeRelativePosition\<close> returns nothing; it prints to the standard output and writes
  to \<^verbatim>\<open>relative_position\<close>. The model returns the lines printed and the new contents of
  \<^verbatim>\<open>relative_position\<close>. The chained assignment of the failure branch stores from right
  to left.
\<close>

definition ComputeRelativePosition ::
    "provider \<Rightarrow> string \<Rightarrow> string \<Rightarrow> real list \<Rightarrow> locals \<Rightarrow> string list \<times> real list" where
  "ComputeRelativePosition vt controller_name tracker_name relative_position L =
     (let (controller_success, controller_pose, controller_quat) = vt controller_name;
          (tracker_success, tracker_pose, tracker_quat) = vt tracker_name
      in if \<not> controller_success \<or> \<not> tracker_success then
           (let relative_position = relative_position[2 := 0];
                relative_position = relative_position[1 := 0];
                relative_position = relative_position[0 := 0]
            in ([''Error: Could not get poses for both devices''], relative_position))
         else
           (let T_world_controller =
                  PoseQuatToMatrix controller_pose controller_quat (T_world_controller L);
                T_world_tracker =
                  PoseQuatToMatrix tracker_pose tracker_quat (T_world_tracker L);
                T_tracker_world = InvertTransform T_world_tracker (T_tracker_world L);
                T_tracker_controller =
                  MultiplyTransforms T_tracker_world T_world_controller (T_tracker_controller L);
                relative_position = ExtractPosition T_tracker_controller relative_position
            in ([], relative_position)))"

definition ComputeDistance :: "real list \<Rightarrow> real" where
  "ComputeDistance relative_position =
     sqrt (relative_position ! 0 * relative_position ! 0 +
           relative_position ! 1 * relative_position ! 1 +
           relative_position ! 2 * relative_position ! 2)"

section \<open>Vocabulary of the specification\<close>

text \<open>
  The specification speaks of a rigid transform \<open>[R | t]\<close>: a 3-by-3 rotation block and a
  translation column. The following definitions follow the wording of the specification,
  not the source; the theorems below compare the source with them.
\<close>

definition rotation :: "Transform \<Rightarrow> real list list" where
  "rotation T = map (take 3) (matrix T)"

definition translation :: "Transform \<Rightarrow> real list" where
  "translation T = map (\<lambda>row. row ! 3) (matrix T)"

definition dot :: "real list \<Rightarrow> real list \<Rightarrow> real" where
  "dot u v = sum_list (map2 (*) u v)"

definition mat_vec :: "real list list \<Rightarrow> real list \<Rightarrow> real list" where
  "mat_vec M v = map (\<lambda>row. dot row v) M"

definition mat_mul :: "real list list \<Rightarrow> real list list \<Rightarrow> real list list" where
  "mat_mul A B = map (\<lambda>row. map (\<lambda>col. dot row col) (transpose B)) A"

definition vec_add :: "real list \<Rightarrow> real list \<Rightarrow> real list" where
  "vec_add u v = map2 (+) u v"

definition vec_sub :: "real list \<Rightarrow> real list \<Rightarrow> real list" where
  "vec_sub u v = map2 (-) u v"

definition vec_neg :: "real list \<Rightarrow> real list" where
  "vec_neg v = map uminus v"

definition identity3 :: "real list list" where
  "identity3 = [[1, 0, 0], [0, 1, 0], [0, 0, 1]]"

definition det3 :: "real list list \<Rightarrow> real" where
  "det3 M =
     M ! 0 ! 0 * (M ! 1 ! 1 * M ! 2 ! 2 - M ! 1 ! 2 * M ! 2 ! 1)
   - M ! 0 ! 1 * (M ! 1 ! 0 * M ! 2 ! 2 - M ! 1 ! 2 * M ! 2 ! 0)
   + M ! 0 ! 2 * (M ! 1 ! 0 * M ! 2 ! 1 - M ! 1 ! 1 * M ! 2 ! 0)"

definition orthonormal :: "real list list \<Rightarrow> bool" where
  "orthonormal R \<longleftrightarrow> mat_mul (transpose R) R = identity3"

definition identity_transform :: Transform where
  "identity_transform = \<lparr>matrix = [[1, 0, 0, 0], [0, 1, 0, 0], [0, 0, 1, 0]]\<rparr>"

section \<open>Sample inputs\<close>

text \<open>
  Concrete values at which the theorems below are instantiated: a buffer of zeros, a
  quarter turn about the z axis placed at \<open>(1, 2, 3)\<close>, a unit shift along y, a uniform
  scaling by two (not a rotation), and two providers.
\<close>

definition blank :: Transform where
  "blank = T34 0 0 0 0  0 0 0 0  0 0 0 0"

definition quarter_turn_z :: Transform where
  "quarter_turn_z = T34 0 (- 1) 0 1  1 0 0 2  0 0 1 3"

definition shift_y :: Transform where
  "shift_y = T34 1 0 0 0  0 1 0 1  0 0 1 0"

definition doubled :: Transform where
  "doubled = T34 2 0 0 1  0 2 0 0  0 0 2 0"

definition blank_locals :: locals where
  "blank_locals = \<lparr>T_world_controller = blank, T_world_tracker = blank,
                    T_tracker_world = blank, T_tracker_controller = blank\<rparr>"

definition tracker_lost :: provider where
  "tracker_lost name =
     (if name = ''tracker_1'' then (False, [0, 0, 0], [0, 0, 0, 0])
      else (True, [1, 2, 3], [1, 0, 0, 0]))"

definition both_tracked :: provider where
  "both_tracked name =
     (if name = ''tracker_1'' then (True, [0, 0, 0], [1/2, 1/2, 1/2, 1/2])
      else (True, [1, 0, 0], [1, 0, 0, 0]))"

section \<open>Arrays of the fixed shape\<close>

lemma wf_T34: "wf_Transform (T34 a b c d e f g h i j k l)"
  by (simp add: wf_Transform_def)

lemma wf_shape:
  assumes "wf_Transform T"
  obtains a b c d e f g h i j k l where "T = T34 a b c d e f g h i j k l"
proof -
  from assms obtain r0 r1 r2 where m: "matrix T = [r0, r1, r2]"
    by (auto simp: wf_Transform_def numeral_3_eq_3 length_Suc_conv)
  have len4: "\<exists>a b c d. r = [a, b, c, d]" if "length r = 4" for r :: "real list"
    using that by (auto simp: numeral_eq_Suc length_Suc_conv)
  from assms m have "length r0 = 4" "length r1 = 4" "length r2 = 4"
    by (simp_all add: wf_Transform_def)
  then obtain a b c d e f g h i j k l
    where "r0 = [a, b, c, d]" "r1 = [e, f, g, h]" "r2 = [i, j, k, l]"
    using len4 by metis
  with m have "T = T34 a b c d e f g h i j k l" by (cases T) simp
  then show ?thesis ..
qed

lemma wf_samples:
  "wf_Transform blank" "wf_Transform quarter_turn_z" "wf_Transform shift_y"
  "wf_Transform doubled" "wf_locals blank_locals"
  by (simp_all add: blank_def quarter_turn_z_def shift_y_def doubled_def blank_locals_def
        wf_locals_def wf_T34)

lemma rd_T34:
  "rd (T34 a b c d e f g h i j k l) 0 0 = a"
  "rd (T34 a b c d e f g h i j k l) 0 (Suc 0) = b"
  "rd (T34 a b c d e f g h i j k l) 0 2 = c"
  "rd (T34 a b c d e f g h i j k l) 0 3 = d"
  "rd (T34 a b c d e f g h i j k l) (Suc 0) 0 = e"
  "rd (T34 a b c d e f g h i j k l) (Suc 0) (Suc 0) = f"
  "rd (T34 a b c d e f g h i j k l) (Suc 0) 2 = g"
  "rd (T34 a b c d e f g h i j k l) (Suc 0) 3 = h"
  "rd (T34 a b c d e f g h i j k l) 2 0 = i"
  "rd (T34 a b c d e f g h i j k l) 2 (Suc 0) = j"
  "rd (T34 a b c d e f g h i j k l) 2 2 = k"
  "rd (T34 a b c d e f g h i j k l) 2 3 = l"
  by (simp_all add: rd_def)

lemma wr_T34:
  "wr (T34 a b c d e f g h i j k l) 0 0 v = T34 v b c d e f g h i j k l"
  "wr (T34 a b c d e f g h i j k l) 0 (Suc 0) v = T34 a v c d e f g h i j k l"
  "wr (T34 a b c d e f g h i j k l) 0 2 v = T34 a b v d e f g h i j k l"
  "wr (T34 a b c d e f g h i j k l) 0 3 v = T34 a b c v e f g h i j k l"
  "wr (T34 a b c d e f g h i j k l) (Suc 0) 0 v = T34 a b c d v f g h i j k l"
  "wr (T34 a b c d e f g h i j k l) (Suc 0) (Suc 0) v = T34 a b c d e v g h i j k l"
  "wr (T34 a b c d e f g h i j k l) (Suc 0) 2 v = T34 a b c d e f v h i j k l"
  "wr (T34 a b c d e f g h i j k l) (Suc 0) 3 v = T34 a b c d e f g v i j k l"
  "wr (T34 a b c d e f g h i j k l) 2 0 v = T34 a b c d e f g h v j k l"
  "wr (T34 a b c d e f g h i j k l) 2 (Suc 0) v = T34 a b c d e f g h i v k l"
  "wr (T34 a b c d e f g h i j k l) 2 2 v = T34 a b c d e f g h i j v l"
  "wr (T34 a b c d e f g h i j k l) 2 3 v = T34 a b c d e f g h i j k v"
  by (simp_all add: wr_def numeral_2_eq_2 numeral_3_eq_3)

lemma rotation_T34:
  "rotation (T34 a b c d e f g h i j k l) = [[a, b, c], [e, f, g], [i, j, k]]"
  by (simp add: rotation_def numeral_3_eq_3)

lemma translation_T34: "translation (T34 a b c d e f g h i j k l) = [d, h, l]"
  by (simp add: translation_def)

text \<open>A loop of three rounds, and the rule that keeps the simplifier out of loop bodies.\<close>

lemma for_loop_3: "for_loop 0 3 body s = body 2 (body (Suc 0) (body 0 s))"
  by (simp add: for_loop.simps numeral_3_eq_3 numeral_2_eq_2)

lemma for_loop_state_cong:
  "i = i' \<Longrightarrow> n = n' \<Longrightarrow> s = s' \<Longrightarrow> for_loop i n body s = for_loop i' n' body s'"
  by simp

section \<open>Closed forms of the three matrix operations\<close>

lemma PoseQuatToMatrix_T34:
  "PoseQuatToMatrix [p0, p1, p2] [w, x, y, z] (T34 a b c d e f g h i j k l) =
     T34 (1 - 2*y*y - 2*z*z) (2*x*y - 2*w*z)     (2*x*z + 2*w*y)     p0
         (2*x*y + 2*w*z)     (1 - 2*x*x - 2*z*z) (2*y*z - 2*w*x)     p1
         (2*x*z - 2*w*y)     (2*y*z + 2*w*x)     (1 - 2*x*x - 2*y*y) p2"
  by (simp add: PoseQuatToMatrix_def Let_def wr_T34)

lemma InvertTransform_T34:
  "InvertTransform (T34 a b c d e f g h i j k l) (T34 a' b' c' d' e' f' g' h' i' j' k' l') =
     T34 a e i (0 - a * d - e * h - i * l)
         b f j (0 - b * d - f * h - j * l)
         c g k (0 - c * d - g * h - k * l)"
  by (simp add: InvertTransform_def Let_def for_loop_3 rd_T34 wr_T34
           cong: for_loop_state_cong)

lemma MultiplyTransforms_T34:
  "MultiplyTransforms (T34 a b c d e f g h i j k l)
       (T34 a' b' c' d' e' f' g' h' i' j' k' l')
       (T34 a'' b'' c'' d'' e'' f'' g'' h'' i'' j'' k'' l'') =
     T34 (0 + a * a' + b * e' + c * i') (0 + a * b' + b * f' + c * j')
         (0 + a * c' + b * g' + c * k') (d + a * d' + b * h' + c * l')
         (0 + e * a' + f * e' + g * i') (0 + e * b' + f * f' + g * j')
         (0 + e * c' + f * g' + g * k') (h + e * d' + f * h' + g * l')
         (0 + i * a' + j * e' + k * i') (0 + i * b' + j * f' + k * j')
         (0 + i * c' + j * g' + k * k') (l + i * d' + j * h' + k * l')"
  by (simp add: MultiplyTransforms_def Let_def for_loop_3 rd_T34 wr_T34
           cong: for_loop_state_cong)

lemma transpose_3x3:
  "transpose [[a, b, c], [e, f, g], [i, j, k]] = [[a, e, i], [b, f, j], [c, g, k :: real]]"
  by simp

lemma mat_vec_3x3:
  "mat_vec [[a, b, c], [e, f, g], [i, j, k]] [x, y, z] =
     [a * x + b * y + c * z, e * x + f * y + g * z, i * x + j * y + k * z]"
  by (simp add: mat_vec_def dot_def)

lemma mat_mul_3x3:
  "mat_mul [[a, b, c], [e, f, g], [i, j, k]] [[a', b', c'], [e', f', g'], [i', j', k']] =
     [[a * a' + b * e' + c * i', a * b' + b * f' + c * j', a * c' + b * g' + c * k'],
      [e * a' + f * e' + g * i', e * b' + f * f' + g * j', e * c' + f * g' + g * k'],
      [i * a' + j * e' + k * i', i * b' + j * f' + k * j', i * c' + j * g' + k * k']]"
  by (simp add: mat_mul_def dot_def)

lemma det3_3x3:
  "det3 [[a, b, c], [e, f, g], [i, j, k]] =
     a * (f * k - g * j) - b * (e * k - g * i) + c * (e * j - f * i)"
  by (simp add: det3_def)

section \<open>The pose encoder\<close>

text \<open>
  Claim C4. For every position \<open>(p0, p1, p2)\<close> and every quaternion \<open>(w, x, y, z)\<close>, unit or
  not, and whatever the output parameter held before the call, \<open>PoseQuatToMatrix\<close> leaves a
  well-shaped transform whose rotation block is the standard quaternion-to-rotation matrix
  in the raw components \<open>w, x, y, z\<close> and whose fourth column is the position. The
  components enter the result as they are given: nothing is normalised.
\<close>

theorem PoseQuatToMatrix_standard:
  assumes "wf_Transform transform"
  shows "rotation (PoseQuatToMatrix [p0, p1, p2] [w, x, y, z] transform) =
           [[1 - 2*y\<^sup>2 - 2*z\<^sup>2, 2*x*y - 2*w*z,       2*x*z + 2*w*y],
            [2*x*y + 2*w*z,       1 - 2*x\<^sup>2 - 2*z\<^sup>2, 2*y*z - 2*w*x],
            [2*x*z - 2*w*y,       2*y*z + 2*w*x,       1 - 2*x\<^sup>2 - 2*y\<^sup>2]]
       \<and> translation (PoseQuatToMatrix [p0, p1, p2] [w, x, y, z] transform) = [p0, p1, p2]
       \<and> wf_Transform (PoseQuatToMatrix [p0, p1, p2] [w, x, y, z] transform)"
proof -
  from assms obtain a b c d e f g h i j k l where "transform = T34 a b c d e f g h i j k l"
    by (rule wf_shape)
  then show ?thesis
    by (simp add: PoseQuatToMatrix_T34 rotation_T34 translation_T34 wf_T34 power2_eq_square)
qed

text \<open>
  The quaternion \<open>(0, 0, 0, 2)\<close> has norm 2. The encoder returns the matrix
  \<open>diag (-7, -7, 1)\<close> for it, which is what the formula gives on the raw components.
\<close>

theorem PoseQuatToMatrix_standard_witness:
  "wf_Transform (T34 0 0 0 0 0 0 0 0 0 0 0 0)
   \<and> rotation (PoseQuatToMatrix [1, 2, 3] [0, 0, 0, 2] (T34 0 0 0 0 0 0 0 0 0 0 0 0)) =
       [[- 7, 0, 0], [0, - 7, 0], [0, 0, 1]]
   \<and> translation (PoseQuatToMatrix [1, 2, 3] [0, 0, 0, 2] (T34 0 0 0 0 0 0 0 0 0 0 0 0)) =
       [1, 2, 3]"
  using PoseQuatToMatrix_standard [OF wf_T34, of 1 2 3 0 0 0 2 0 0 0 0 0 0 0 0 0 0 0 0]
  by (simp add: wf_T34)

section \<open>The transform inverter\<close>

text \<open>
  Claim C5. For every transform \<open>[R | t]\<close> and every previous content of the output
  parameter (a value of its own, so the two are not aliased), \<open>InvertTransform\<close> returns a
  well-shaped transform: it has no failure branch. The rotation block of the result is the
  transpose of \<open>R\<close>; its translation is \<open>- R\<^sup>T t\<close>, and this is the negated product of the
  rotation block already stored in the result with the translation of the input.
\<close>

theorem InvertTransform_transpose:
  assumes "wf_Transform input" and "wf_Transform output"
  shows "wf_Transform (InvertTransform input output)
       \<and> rotation (InvertTransform input output) = transpose (rotation input)
       \<and> translation (InvertTransform input output) =
           vec_neg (mat_vec (transpose (rotation input)) (translation input))
       \<and> translation (InvertTransform input output) =
           vec_neg (mat_vec (rotation (InvertTransform input output)) (translation input))"
proof -
  from assms(1) obtain a b c d e f g h i j k l
    where inp: "input = T34 a b c d e f g h i j k l" by (rule wf_shape)
  from assms(2) obtain a' b' c' d' e' f' g' h' i' j' k' l'
    where out: "output = T34 a' b' c' d' e' f' g' h' i' j' k' l'" by (rule wf_shape)
  show ?thesis
    unfolding inp out InvertTransform_T34
    by (simp add: rotation_T34 translation_T34 wf_T34 mat_vec_3x3 vec_neg_def)
qed

theorem InvertTransform_transpose_witness:
  "wf_Transform (T34 1 2 3 4 5 6 7 8 9 10 11 12)
   \<and> wf_Transform (T34 0 0 0 0 0 0 0 0 0 0 0 0)
   \<and> rotation (InvertTransform (T34 1 2 3 4 5 6 7 8 9 10 11 12) (T34 0 0 0 0 0 0 0 0 0 0 0 0)) =
       [[1, 5, 9], [2, 6, 10], [3, 7, 11]]
   \<and> translation (InvertTransform (T34 1 2 3 4 5 6 7 8 9 10 11 12) (T34 0 0 0 0 0 0 0 0 0 0 0 0)) =
       [- 152, - 176, - 200]"
  using InvertTransform_transpose
    [OF wf_T34 wf_T34, of 1 2 3 4 5 6 7 8 9 10 11 12 0 0 0 0 0 0 0 0 0 0 0 0]
  by (simp add: wf_T34 rotation_T34 translation_T34 mat_vec_3x3 vec_neg_def)

section \<open>The transform composer\<close>

text \<open>
  Claim C6. For all transforms \<open>A = [R\<^sub>A | t\<^sub>A]\<close> and \<open>B = [R\<^sub>B | t\<^sub>B]\<close> and every previous
  content of the output parameter, \<open>MultiplyTransforms A B\<close> returns a well-shaped transform
  whose rotation block is the matrix product \<open>R\<^sub>A R\<^sub>B\<close> and whose translation is
  \<open>t\<^sub>A + R\<^sub>A t\<^sub>B\<close>. This is not \<open>R\<^sub>B t\<^sub>A + t\<^sub>B\<close>: for the quarter turn about z placed at
  \<open>(1, 2, 3)\<close> composed with the unit shift along y the two expressions differ.
\<close>

theorem MultiplyTransforms_product:
  assumes "wf_Transform t1" and "wf_Transform t2" and "wf_Transform result"
  shows "wf_Transform (MultiplyTransforms t1 t2 result)
       \<and> rotation (MultiplyTransforms t1 t2 result) = mat_mul (rotation t1) (rotation t2)
       \<and> translation (MultiplyTransforms t1 t2 result) =
           vec_add (translation t1) (mat_vec (rotation t1) (translation t2))
       \<and> translation (MultiplyTransforms quarter_turn_z shift_y result) \<noteq>
           vec_add (mat_vec (rotation shift_y) (translation quarter_turn_z)) (translation shift_y)"
proof -
  from assms(1) obtain a b c d e f g h i j k l
    where t1: "t1 = T34 a b c d e f g h i j k l" by (rule wf_shape)
  from assms(2) obtain a' b' c' d' e' f' g' h' i' j' k' l'
    where t2: "t2 = T34 a' b' c' d' e' f' g' h' i' j' k' l'" by (rule wf_shape)
  from assms(3) obtain a'' b'' c'' d'' e'' f'' g'' h'' i'' j'' k'' l''
    where res: "result = T34 a'' b'' c'' d'' e'' f'' g'' h'' i'' j'' k'' l''" by (rule wf_shape)
  have general: "wf_Transform (MultiplyTransforms t1 t2 result)
       \<and> rotation (MultiplyTransforms t1 t2 result) = mat_mul (rotation t1) (rotation t2)
       \<and> translation (MultiplyTransforms t1 t2 result) =
           vec_add (translation t1) (mat_vec (rotation t1) (translation t2))"
    unfolding t1 t2 res MultiplyTransforms_T34
    by (simp add: rotation_T34 translation_T34 wf_T34 mat_vec_3x3 mat_mul_3x3 vec_add_def)
  have order: "translation (MultiplyTransforms quarter_turn_z shift_y result) \<noteq>
           vec_add (mat_vec (rotation shift_y) (translation quarter_turn_z)) (translation shift_y)"
    unfolding res quarter_turn_z_def shift_y_def MultiplyTransforms_T34
    by (simp add: rotation_T34 translation_T34 mat_vec_3x3 vec_add_def)
  from general order show ?thesis by simp
qed

theorem MultiplyTransforms_product_witness:
  "wf_Transform quarter_turn_z \<and> wf_Transform shift_y \<and> wf_Transform blank
   \<and> rotation (MultiplyTransforms quarter_turn_z shift_y blank) = [[0, - 1, 0], [1, 0, 0], [0, 0, 1]]
   \<and> translation (MultiplyTransforms quarter_turn_z shift_y blank) = [0, 2, 3]"
  using MultiplyTransforms_product [OF wf_samples(2) wf_samples(3) wf_samples(1)]
  by (simp add: wf_T34 blank_def quarter_turn_z_def shift_y_def rotation_T34 translation_T34
        mat_vec_3x3 mat_mul_3x3 vec_add_def)

section \<open>Orthonormal rotation blocks\<close>

text \<open>
  A 3-by-3 real matrix whose columns are orthonormal (\<open>R\<^sup>T R = I\<close>) has orthonormal rows
  (\<open>R R\<^sup>T = I\<close>). With \<open>M = R R\<^sup>T\<close> one has \<open>M M = M\<close>, \<open>M\<close> symmetric and of trace 3,
  so the squared entries of \<open>M - I\<close> add up to zero.
\<close>

lemma row_gram_idem:
  fixes a b c e f g i j k :: real
  assumes "a*a + e*e + i*i = 1" "b*b + f*f + j*j = 1" "c*c + g*g + k*k = 1"
    "a*b + e*f + i*j = 0" "a*c + e*g + i*k = 0" "b*c + f*g + j*k = 0"
  shows "(a*a + b*b + c*c)\<^sup>2 + (a*e + b*f + c*g)\<^sup>2 + (a*i + b*j + c*k)\<^sup>2 = a*a + b*b + c*c"
proof -
  have "(a*a + b*b + c*c)\<^sup>2 + (a*e + b*f + c*g)\<^sup>2 + (a*i + b*j + c*k)\<^sup>2 =
        a*a*(a*a + e*e + i*i) + b*b*(b*b + f*f + j*j) + c*c*(c*c + g*g + k*k)
        + 2*(a*b)*(a*b + e*f + i*j) + 2*(a*c)*(a*c + e*g + i*k) + 2*(b*c)*(b*c + f*g + j*k)"
    by (simp add: power2_eq_square algebra_simps)
  also have "\<dots> = a*a + b*b + c*c"
    by (simp add: assms)
  finally show ?thesis .
qed

lemma rows_of_cols:
  fixes a b c e f g i j k :: real
  assumes c00: "a*a + e*e + i*i = 1" and c11: "b*b + f*f + j*j = 1" and c22: "c*c + g*g + k*k = 1"
    and c01: "a*b + e*f + i*j = 0" and c02: "a*c + e*g + i*k = 0" and c12: "b*c + f*g + j*k = 0"
  shows "a*a + b*b + c*c = 1" "e*e + f*f + g*g = 1" "i*i + j*j + k*k = 1"
    "a*e + b*f + c*g = 0" "a*i + b*j + c*k = 0" "e*i + f*j + g*k = 0"
proof -
  define m00 where "m00 = a*a + b*b + c*c"
  define m11 where "m11 = e*e + f*f + g*g"
  define m22 where "m22 = i*i + j*j + k*k"
  define m01 where "m01 = a*e + b*f + c*g"
  define m02 where "m02 = a*i + b*j + c*k"
  define m12 where "m12 = e*i + f*j + g*k"
  have s0: "m00\<^sup>2 + m01\<^sup>2 + m02\<^sup>2 = m00"
    unfolding m00_def m01_def m02_def
    by (rule row_gram_idem [OF c00 c11 c22 c01 c02 c12])
  have "(e*e + f*f + g*g)\<^sup>2 + (e*a + f*b + g*c)\<^sup>2 + (e*i + f*j + g*k)\<^sup>2 = e*e + f*f + g*g"
    by (rule row_gram_idem) (use assms in \<open>simp_all add: algebra_simps\<close>)
  then have s1: "m11\<^sup>2 + m01\<^sup>2 + m12\<^sup>2 = m11"
    unfolding m11_def m01_def m12_def by (simp add: algebra_simps)
  have "(i*i + j*j + k*k)\<^sup>2 + (i*a + j*b + k*c)\<^sup>2 + (i*e + j*f + k*g)\<^sup>2 = i*i + j*j + k*k"
    by (rule row_gram_idem) (use assms in \<open>simp_all add: algebra_simps\<close>)
  then have s2: "m22\<^sup>2 + m02\<^sup>2 + m12\<^sup>2 = m22"
    unfolding m22_def m02_def m12_def by (simp add: algebra_simps)
  have tr: "m00 + m11 + m22 = 3"
    unfolding m00_def m11_def m22_def using c00 c11 c22 by linarith
  have "(m00 - 1)\<^sup>2 + (m11 - 1)\<^sup>2 + (m22 - 1)\<^sup>2 + 2 * m01\<^sup>2 + 2 * m02\<^sup>2 + 2 * m12\<^sup>2 = 0"
    using s0 s1 s2 tr by (simp add: power2_diff)
  moreover have "0 \<le> (m00 - 1)\<^sup>2" "0 \<le> (m11 - 1)\<^sup>2" "0 \<le> (m22 - 1)\<^sup>2"
    "0 \<le> m01\<^sup>2" "0 \<le> m02\<^sup>2" "0 \<le> m12\<^sup>2"
    by simp_all
  ultimately have "(m00 - 1)\<^sup>2 = 0" "(m11 - 1)\<^sup>2 = 0" "(m22 - 1)\<^sup>2 = 0"
    "m01\<^sup>2 = 0" "m02\<^sup>2 = 0" "m12\<^sup>2 = 0"
    by linarith+
  then show "a*a + b*b + c*c = 1" "e*e + f*f + g*g = 1" "i*i + j*j + k*k = 1"
    "a*e + b*f + c*g = 0" "a*i + b*j + c*k = 0" "e*i + f*j + g*k = 0"
    unfolding m00_def m11_def m22_def m01_def m02_def m12_def by simp_all
qed

lemma orthonormal_3x3:
  "orthonormal [[a, b, c], [e, f, g], [i, j, k]] \<longleftrightarrow>
     a*a + e*e + i*i = 1 \<and> b*b + f*f + j*j = 1 \<and> c*c + g*g + k*k = 1 \<and>
     a*b + e*f + i*j = 0 \<and> a*c + e*g + i*k = 0 \<and> b*c + f*g + j*k = 0"
  unfolding orthonormal_def transpose_3x3 mat_mul_3x3 identity3_def
  by (auto simp: algebra_simps)

lemma compose_inverse_right:
  fixes a b c d e f g h i j k l :: real
  assumes "a*a + b*b + c*c = 1" "e*e + f*f + g*g = 1" "i*i + j*j + k*k = 1"
    "a*e + b*f + c*g = 0" "a*i + b*j + c*k = 0" "e*i + f*j + g*k = 0"
  shows "MultiplyTransforms (T34 a b c d e f g h i j k l)
           (InvertTransform (T34 a b c d e f g h i j k l)
              (T34 a' b' c' d' e' f' g' h' i' j' k' l'))
           (T34 a'' b'' c'' d'' e'' f'' g'' h'' i'' j'' k'' l'') = identity_transform"
  unfolding InvertTransform_T34 MultiplyTransforms_T34 identity_transform_def
  apply simp
  apply (intro conjI)
  apply (use assms in \<open>(simp add: mult.commute; fail) | algebra\<close>)+
  done

lemma compose_inverse_left:
  fixes a b c d e f g h i j k l :: real
  assumes "a*a + e*e + i*i = 1" "b*b + f*f + j*j = 1" "c*c + g*g + k*k = 1"
    "a*b + e*f + i*j = 0" "a*c + e*g + i*k = 0" "b*c + f*g + j*k = 0"
  shows "MultiplyTransforms
           (InvertTransform (T34 a b c d e f g h i j k l)
              (T34 a' b' c' d' e' f' g' h' i' j' k' l'))
           (T34 a b c d e f g h i j k l)
           (T34 a'' b'' c'' d'' e'' f'' g'' h'' i'' j'' k'' l'') = identity_transform"
  unfolding InvertTransform_T34 MultiplyTransforms_T34 identity_transform_def
  apply simp
  apply (intro conjI)
  apply (use assms in \<open>(simp add: mult.commute; fail) | algebra\<close>)+
  done

lemma invert_twice:
  fixes a b c d e f g h i j k l :: real
  assumes "a*a + b*b + c*c = 1" "e*e + f*f + g*g = 1" "i*i + j*j + k*k = 1"
    "a*e + b*f + c*g = 0" "a*i + b*j + c*k = 0" "e*i + f*j + g*k = 0"
  shows "InvertTransform
           (InvertTransform (T34 a b c d e f g h i j k l)
              (T34 a' b' c' d' e' f' g' h' i' j' k' l'))
           (T34 a'' b'' c'' d'' e'' f'' g'' h'' i'' j'' k'' l'') = T34 a b c d e f g h i j k l"
  unfolding InvertTransform_T34
  apply simp
  apply (intro conjI)
  apply (use assms in \<open>(simp add: mult.commute; fail) | algebra\<close>)+
  done

section \<open>Identity round trip\<close>

text \<open>
  Claim C7. For every valid rigid transform \<open>T\<close>, that is, one whose rotation block \<open>R\<close>
  satisfies \<open>R\<^sup>T R = I\<close> and \<open>det R = 1\<close>, and for all previous contents of the output
  parameters, composing \<open>T\<close> with its inverse and composing the inverse with \<open>T\<close> both
  give the identity transform: rotation block the identity matrix, translation zero. The
  equality is exact in real arithmetic, hence within every tolerance.
\<close>

theorem compose_inverse_identity:
  assumes "wf_Transform T" and "orthonormal (rotation T)" and "det3 (rotation T) = 1"
    and "wf_Transform out1" and "wf_Transform out2"
    and "wf_Transform out3" and "wf_Transform out4"
  shows "MultiplyTransforms T (InvertTransform T out1) out2 = identity_transform
       \<and> MultiplyTransforms (InvertTransform T out3) T out4 = identity_transform"
proof -
  from assms(1) obtain a b c d e f g h i j k l
    where T: "T = T34 a b c d e f g h i j k l" by (rule wf_shape)
  from assms(4) obtain p1 p2 p3 p4 p5 p6 p7 p8 p9 p10 p11 p12
    where o1: "out1 = T34 p1 p2 p3 p4 p5 p6 p7 p8 p9 p10 p11 p12" by (rule wf_shape)
  from assms(5) obtain q1 q2 q3 q4 q5 q6 q7 q8 q9 q10 q11 q12
    where o2: "out2 = T34 q1 q2 q3 q4 q5 q6 q7 q8 q9 q10 q11 q12" by (rule wf_shape)
  from assms(6) obtain u1 u2 u3 u4 u5 u6 u7 u8 u9 u10 u11 u12
    where o3: "out3 = T34 u1 u2 u3 u4 u5 u6 u7 u8 u9 u10 u11 u12" by (rule wf_shape)
  from assms(7) obtain v1 v2 v3 v4 v5 v6 v7 v8 v9 v10 v11 v12
    where o4: "out4 = T34 v1 v2 v3 v4 v5 v6 v7 v8 v9 v10 v11 v12" by (rule wf_shape)
  from assms(2) have cols:
    "a*a + e*e + i*i = 1" "b*b + f*f + j*j = 1" "c*c + g*g + k*k = 1"
    "a*b + e*f + i*j = 0" "a*c + e*g + i*k = 0" "b*c + f*g + j*k = 0"
    by (simp_all add: T rotation_T34 orthonormal_3x3)
  have "MultiplyTransforms T (InvertTransform T out1) out2 = identity_transform"
    unfolding T o1 o2 by (rule compose_inverse_right [OF rows_of_cols [OF cols]])
  moreover have "MultiplyTransforms (InvertTransform T out3) T out4 = identity_transform"
    unfolding T o3 o4 by (rule compose_inverse_left [OF cols])
  ultimately show ?thesis by simp
qed

theorem compose_inverse_identity_witness:
  "wf_Transform quarter_turn_z \<and> orthonormal (rotation quarter_turn_z)
   \<and> det3 (rotation quarter_turn_z) = 1 \<and> wf_Transform blank
   \<and> MultiplyTransforms quarter_turn_z (InvertTransform quarter_turn_z blank) blank =
       identity_transform
   \<and> MultiplyTransforms (InvertTransform quarter_turn_z blank) quarter_turn_z blank =
       identity_transform"
proof -
  have ortho: "orthonormal (rotation quarter_turn_z)"
    by (simp add: quarter_turn_z_def rotation_T34 orthonormal_3x3)
  have det: "det3 (rotation quarter_turn_z) = 1"
    by (simp add: quarter_turn_z_def rotation_T34 det3_3x3)
  show ?thesis
    using compose_inverse_identity [OF wf_samples(2) ortho det
        wf_samples(1) wf_samples(1) wf_samples(1) wf_samples(1)]
      ortho det wf_samples(1,2)
    by simp
qed

section \<open>Encoder orthonormality\<close>

lemma quat_orthonormal:
  fixes w x y z :: real
  assumes "w\<^sup>2 + x\<^sup>2 + y\<^sup>2 + z\<^sup>2 = 1"
  shows "orthonormal
           [[1 - 2*y*y - 2*z*z, 2*x*y - 2*w*z,     2*x*z + 2*w*y],
            [2*x*y + 2*w*z,     1 - 2*x*x - 2*z*z, 2*y*z - 2*w*x],
            [2*x*z - 2*w*y,     2*y*z + 2*w*x,     1 - 2*x*x - 2*y*y]]"
  unfolding orthonormal_3x3
  apply (intro conjI)
  apply (use assms in \<open>(simp add: mult.commute; fail) | algebra\<close>)+
  done

lemma quat_det:
  fixes w x y z :: real
  assumes "w\<^sup>2 + x\<^sup>2 + y\<^sup>2 + z\<^sup>2 = 1"
  shows "det3
           [[1 - 2*y*y - 2*z*z, 2*x*y - 2*w*z,     2*x*z + 2*w*y],
            [2*x*y + 2*w*z,     1 - 2*x*x - 2*z*z, 2*y*z - 2*w*x],
            [2*x*z - 2*w*y,     2*y*z + 2*w*x,     1 - 2*x*x - 2*y*y]] = 1"
  unfolding det3_3x3
  using assms by algebra

text \<open>
  Claim C8. For every unit quaternion, \<open>w\<^sup>2 + x\<^sup>2 + y\<^sup>2 + z\<^sup>2 = 1\<close>, the rotation block
  \<open>R\<close> that \<open>PoseQuatToMatrix\<close> produces satisfies \<open>R\<^sup>T R = I\<close> and \<open>det R = 1\<close>. The
  equalities are exact in real arithmetic, hence within every tolerance.
\<close>

theorem PoseQuatToMatrix_rotation:
  assumes "w\<^sup>2 + x\<^sup>2 + y\<^sup>2 + z\<^sup>2 = 1" and "wf_Transform transform"
  shows "orthonormal (rotation (PoseQuatToMatrix [p0, p1, p2] [w, x, y, z] transform))
       \<and> det3 (rotation (PoseQuatToMatrix [p0, p1, p2] [w, x, y, z] transform)) = 1"
proof -
  from assms(2) obtain a b c d e f g h i j k l
    where "transform = T34 a b c d e f g h i j k l" by (rule wf_shape)
  then show ?thesis
    by (simp only: PoseQuatToMatrix_T34 rotation_T34 quat_orthonormal [OF assms(1)]
          quat_det [OF assms(1)] simp_thms)
qed

theorem PoseQuatToMatrix_rotation_witness:
  "(3/5)\<^sup>2 + 0\<^sup>2 + (4/5)\<^sup>2 + 0\<^sup>2 = (1 :: real) \<and> wf_Transform blank
   \<and> orthonormal (rotation (PoseQuatToMatrix [1, 2, 3] [3/5, 0, 4/5, 0] blank))
   \<and> det3 (rotation (PoseQuatToMatrix [1, 2, 3] [3/5, 0, 4/5, 0] blank)) = 1"
proof -
  have unit: "(3/5)\<^sup>2 + 0\<^sup>2 + (4/5)\<^sup>2 + 0\<^sup>2 = (1 :: real)"
    by (simp add: power2_eq_square)
  show ?thesis
    using PoseQuatToMatrix_rotation [OF unit wf_samples(1), of 1 2 3] unit wf_samples(1)
    by simp
qed

section \<open>Inversion is an involution\<close>

text \<open>
  Claim C10. Inverting twice returns the rotation block of any transform, since
  transposing twice does. When the rotation block is orthonormal, inverting twice returns
  the whole transform, translation included. Orthonormality is needed for the
  translation: for the scaling by two placed at \<open>(1, 0, 0)\<close> the translation comes back as
  \<open>(4, 0, 0)\<close>.
\<close>

theorem InvertTransform_involution:
  assumes "wf_Transform T" and "wf_Transform out1" and "wf_Transform out2"
  shows "rotation (InvertTransform (InvertTransform T out1) out2) = rotation T
       \<and> (orthonormal (rotation T) \<longrightarrow> InvertTransform (InvertTransform T out1) out2 = T)
       \<and> InvertTransform (InvertTransform doubled out1) out2 \<noteq> doubled"
proof -
  from assms(1) obtain a b c d e f g h i j k l
    where T: "T = T34 a b c d e f g h i j k l" by (rule wf_shape)
  from assms(2) obtain p1 p2 p3 p4 p5 p6 p7 p8 p9 p10 p11 p12
    where o1: "out1 = T34 p1 p2 p3 p4 p5 p6 p7 p8 p9 p10 p11 p12" by (rule wf_shape)
  from assms(3) obtain q1 q2 q3 q4 q5 q6 q7 q8 q9 q10 q11 q12
    where o2: "out2 = T34 q1 q2 q3 q4 q5 q6 q7 q8 q9 q10 q11 q12" by (rule wf_shape)
  have rot: "rotation (InvertTransform (InvertTransform T out1) out2) = rotation T"
    unfolding T o1 o2 InvertTransform_T34 by (simp add: rotation_T34)
  have full: "InvertTransform (InvertTransform T out1) out2 = T"
    if ortho: "orthonormal (rotation T)"
  proof -
    from ortho have cols:
      "a*a + e*e + i*i = 1" "b*b + f*f + j*j = 1" "c*c + g*g + k*k = 1"
      "a*b + e*f + i*j = 0" "a*c + e*g + i*k = 0" "b*c + f*g + j*k = 0"
      by (simp_all add: T rotation_T34 orthonormal_3x3)
    show ?thesis
      unfolding T o1 o2 by (rule invert_twice [OF rows_of_cols [OF cols]])
  qed
  have scaled: "InvertTransform (InvertTransform doubled out1) out2 \<noteq> doubled"
    unfolding doubled_def o1 o2 InvertTransform_T34 by simp
  from rot full scaled show ?thesis by blast
qed

theorem InvertTransform_involution_witness:
  "wf_Transform quarter_turn_z \<and> wf_Transform blank \<and> orthonormal (rotation quarter_turn_z)
   \<and> InvertTransform (InvertTransform quarter_turn_z blank) blank = quarter_turn_z"
proof -
  have ortho: "orthonormal (rotation quarter_turn_z)"
    by (simp add: quarter_turn_z_def rotation_T34 orthonormal_3x3)
  show ?thesis
    using InvertTransform_involution [OF wf_samples(2) wf_samples(1) wf_samples(1)]
      ortho wf_samples(1,2)
    by simp
qed

section \<open>The relative pose evaluator\<close>

lemma length3_shape:
  assumes "length (xs :: real list) = 3"
  obtains r0 r1 r2 where "xs = [r0, r1, r2]"
  using assms by (auto simp: numeral_3_eq_3 length_Suc_conv)

lemma ExtractPosition_T34:
  "ExtractPosition (T34 a b c d e f g h i j k l) [r0, r1, r2] = [d, h, l]"
  by (simp add: ExtractPosition_def rd_def numeral_2_eq_2 numeral_3_eq_3)

lemma ComputeRelativePosition_fail:
  assumes "\<not> fst (vt controller_name) \<or> \<not> fst (vt tracker_name)"
    and "length relative_position = 3"
  shows "ComputeRelativePosition vt controller_name tracker_name relative_position L =
           ([''Error: Could not get poses for both devices''], [0, 0, 0])"
proof -
  from assms(2) obtain r0 r1 r2 where "relative_position = [r0, r1, r2]"
    by (rule length3_shape)
  with assms(1) show ?thesis
    by (auto simp: ComputeRelativePosition_def numeral_2_eq_2 split: prod.splits)
qed

lemma ComputeDistance_zero: "ComputeDistance [0, 0, 0] = 0"
  by (simp add: ComputeDistance_def numeral_2_eq_2)

text \<open>
  Claim C1. When the provider reports success for both devices, with a 3-vector and a
  quaternion each, \<open>ComputeRelativePosition\<close> prints nothing and stores in
  \<open>relative_position\<close> the translation of
  \<open>MultiplyTransforms (InvertTransform (PoseQuatToMatrix tracker)) (PoseQuatToMatrix controller)\<close>,
  whatever the local variables, the output parameters and \<open>relative_position\<close> held
  before. That translation is the controller's offset from the tracker, multiplied by the
  transposed rotation block of the tracker: the controller's position in the tracker's
  local frame.
\<close>

theorem ComputeRelativePosition_relative:
  assumes "vt controller_name = (True, [c0, c1, c2], [cw, cx, cy, cz])"
    and "vt tracker_name = (True, [t0, t1, t2], [tw, tx, ty, tz])"
    and "length relative_position = 3" and "wf_locals L"
    and "wf_Transform out1" and "wf_Transform out2"
    and "wf_Transform out3" and "wf_Transform out4"
  shows "ComputeRelativePosition vt controller_name tracker_name relative_position L =
           ([], translation
                  (MultiplyTransforms
                     (InvertTransform (PoseQuatToMatrix [t0, t1, t2] [tw, tx, ty, tz] out1) out2)
                     (PoseQuatToMatrix [c0, c1, c2] [cw, cx, cy, cz] out3) out4))
       \<and> snd (ComputeRelativePosition vt controller_name tracker_name relative_position L) =
           mat_vec
             (transpose (rotation (PoseQuatToMatrix [t0, t1, t2] [tw, tx, ty, tz] out1)))
             (vec_sub [c0, c1, c2] [t0, t1, t2])"
proof -
  from assms(3) obtain r0 r1 r2 where rp: "relative_position = [r0, r1, r2]"
    by (rule length3_shape)
  from assms(4) have wfL: "wf_Transform (T_world_controller L)" "wf_Transform (T_world_tracker L)"
    "wf_Transform (T_tracker_world L)" "wf_Transform (T_tracker_controller L)"
    by (simp_all add: wf_locals_def)
  from wfL(1) obtain m1 m2 m3 m4 m5 m6 m7 m8 m9 m10 m11 m12
    where L1: "T_world_controller L = T34 m1 m2 m3 m4 m5 m6 m7 m8 m9 m10 m11 m12"
    by (rule wf_shape)
  from wfL(2) obtain n1 n2 n3 n4 n5 n6 n7 n8 n9 n10 n11 n12
    where L2: "T_world_tracker L = T34 n1 n2 n3 n4 n5 n6 n7 n8 n9 n10 n11 n12"
    by (rule wf_shape)
  from wfL(3) obtain s1 s2 s3 s4 s5 s6 s7 s8 s9 s10 s11 s12
    where L3: "T_tracker_world L = T34 s1 s2 s3 s4 s5 s6 s7 s8 s9 s10 s11 s12"
    by (rule wf_shape)
  from wfL(4) obtain y1 y2 y3 y4 y5 y6 y7 y8 y9 y10 y11 y12
    where L4: "T_tracker_controller L = T34 y1 y2 y3 y4 y5 y6 y7 y8 y9 y10 y11 y12"
    by (rule wf_shape)
  from assms(5) obtain p1 p2 p3 p4 p5 p6 p7 p8 p9 p10 p11 p12
    where o1: "out1 = T34 p1 p2 p3 p4 p5 p6 p7 p8 p9 p10 p11 p12" by (rule wf_shape)
  from assms(6) obtain q1 q2 q3 q4 q5 q6 q7 q8 q9 q10 q11 q12
    where o2: "out2 = T34 q1 q2 q3 q4 q5 q6 q7 q8 q9 q10 q11 q12" by (rule wf_shape)
  from assms(7) obtain u1 u2 u3 u4 u5 u6 u7 u8 u9 u10 u11 u12
    where o3: "out3 = T34 u1 u2 u3 u4 u5 u6 u7 u8 u9 u10 u11 u12" by (rule wf_shape)
  from assms(8) obtain v1 v2 v3 v4 v5 v6 v7 v8 v9 v10 v11 v12
    where o4: "out4 = T34 v1 v2 v3 v4 v5 v6 v7 v8 v9 v10 v11 v12" by (rule wf_shape)
  have code: "ComputeRelativePosition vt controller_name tracker_name relative_position L =
           ([], translation
                  (MultiplyTransforms
                     (InvertTransform (PoseQuatToMatrix [t0, t1, t2] [tw, tx, ty, tz] out1) out2)
                     (PoseQuatToMatrix [c0, c1, c2] [cw, cx, cy, cz] out3) out4))"
    by (simp add: ComputeRelativePosition_def assms(1,2) rp L1 L2 L3 L4 o1 o2 o3 o4
          PoseQuatToMatrix_T34 InvertTransform_T34 MultiplyTransforms_T34
          ExtractPosition_T34 translation_T34)
  have closed: "translation
                  (MultiplyTransforms
                     (InvertTransform (PoseQuatToMatrix [t0, t1, t2] [tw, tx, ty, tz] out1) out2)
                     (PoseQuatToMatrix [c0, c1, c2] [cw, cx, cy, cz] out3) out4) =
           mat_vec
             (transpose (rotation (PoseQuatToMatrix [t0, t1, t2] [tw, tx, ty, tz] out1)))
             (vec_sub [c0, c1, c2] [t0, t1, t2])"
    unfolding o1 o2 o3 o4 PoseQuatToMatrix_T34 InvertTransform_T34 MultiplyTransforms_T34
      rotation_T34 translation_T34 transpose_3x3
    by (simp add: vec_sub_def mat_vec_3x3 algebra_simps)
  from code closed show ?thesis by simp
qed

theorem ComputeRelativePosition_relative_witness:
  "both_tracked ''controller_1'' = (True, [1, 0, 0], [1, 0, 0, 0])
   \<and> both_tracked ''tracker_1'' = (True, [0, 0, 0], [1/2, 1/2, 1/2, 1/2])
   \<and> length [7, 8, 9 :: real] = 3 \<and> wf_locals blank_locals \<and> wf_Transform blank
   \<and> ComputeRelativePosition both_tracked ''controller_1'' ''tracker_1'' [7, 8, 9] blank_locals =
       ([], [0, 0, 1])"
proof -
  have c: "both_tracked ''controller_1'' = (True, [1, 0, 0], [1, 0, 0, 0])"
    and t: "both_tracked ''tracker_1'' = (True, [0, 0, 0], [1/2, 1/2, 1/2, 1/2])"
    by (simp_all add: both_tracked_def)
  have len: "length [7, 8, 9 :: real] = 3" by simp
  show ?thesis
    using ComputeRelativePosition_relative [OF c t len wf_samples(5)
        wf_samples(1) wf_samples(1) wf_samples(1) wf_samples(1)]
      c t wf_samples(1,5)
    by (simp add: blank_def PoseQuatToMatrix_T34 InvertTransform_T34 MultiplyTransforms_T34
          translation_T34)
qed

text \<open>
  Claim C2, as stated: when the query fails for either device, the evaluation fails with
  \<open>DeviceUnavailable\<close> and produces no position and no distance. The source has no such
  result. With the tracker lost, \<open>ComputeRelativePosition\<close> returns normally, having
  replaced the previous contents \<open>(7, 8, 9)\<close> of \<open>relative_position\<close> by the position
  \<open>(0, 0, 0)\<close>, and \<open>ComputeDistance\<close> of that output is the distance 0.
\<close>

theorem ComputeRelativePosition_unavailable_counterexample:
  "\<not> fst (tracker_lost ''tracker_1'')
   \<and> ComputeRelativePosition tracker_lost ''controller_1'' ''tracker_1'' [7, 8, 9] blank_locals =
       ([''Error: Could not get poses for both devices''], [0, 0, 0])
   \<and> ComputeDistance
       (snd (ComputeRelativePosition tracker_lost ''controller_1'' ''tracker_1'' [7, 8, 9]
          blank_locals)) = 0"
  by (simp add: tracker_lost_def ComputeRelativePosition_def ComputeDistance_def numeral_2_eq_2)

text \<open>
  Claim C2, amended. When the query fails for the primary or for the secondary device,
  \<open>ComputeRelativePosition\<close> prints the single line
  \<^verbatim>\<open>Error: Could not get poses for both devices\<close> and stores the zero vector \<open>(0, 0, 0)\<close>
  in \<open>relative_position\<close>, whatever the samples, the local variables and
  \<open>relative_position\<close> held before. The printed line is the only sign of the failure.
\<close>

theorem ComputeRelativePosition_unavailable:
  assumes "\<not> fst (vt controller_name) \<or> \<not> fst (vt tracker_name)"
    and "length relative_position = 3"
  shows "fst (ComputeRelativePosition vt controller_name tracker_name relative_position L) =
           [''Error: Could not get poses for both devices'']
       \<and> snd (ComputeRelativePosition vt controller_name tracker_name relative_position L) =
           [0, 0, 0]"
  by (simp add: ComputeRelativePosition_fail [OF assms])

theorem ComputeRelativePosition_unavailable_witness:
  "\<not> fst (tracker_lost ''tracker_1'')
   \<and> length [7, 8, 9 :: real] = 3
   \<and> fst (ComputeRelativePosition tracker_lost ''controller_1'' ''tracker_1'' [7, 8, 9]
        blank_locals) = [''Error: Could not get poses for both devices'']
   \<and> snd (ComputeRelativePosition tracker_lost ''controller_1'' ''tracker_1'' [7, 8, 9]
        blank_locals) = [0, 0, 0]"
proof -
  have gone: "\<not> fst (tracker_lost ''tracker_1'')"
    by (simp add: tracker_lost_def)
  have lost: "\<not> fst (tracker_lost ''controller_1'') \<or> \<not> fst (tracker_lost ''tracker_1'')"
    using gone by simp
  have len: "length [7, 8, 9 :: real] = 3" by simp
  show ?thesis
    using ComputeRelativePosition_unavailable [OF lost len, of blank_locals] gone
    by simp
qed

text \<open>
  Claim C3. Whenever one of the two device lookups fails, each of the three components of
  the output \<open>relative_position\<close> is exactly zero, none keeps its previous value, and
  \<open>ComputeDistance\<close> of that output is exactly 0.
\<close>

theorem lookup_failure_zero_vector:
  assumes "\<not> fst (vt controller_name) \<or> \<not> fst (vt tracker_name)"
    and "length relative_position = 3"
  shows "snd (ComputeRelativePosition vt controller_name tracker_name relative_position L) ! 0 = 0
       \<and> snd (ComputeRelativePosition vt controller_name tracker_name relative_position L) ! 1 = 0
       \<and> snd (ComputeRelativePosition vt controller_name tracker_name relative_position L) ! 2 = 0
       \<and> length (snd (ComputeRelativePosition vt controller_name tracker_name
                        relative_position L)) = 3
       \<and> ComputeDistance
           (snd (ComputeRelativePosition vt controller_name tracker_name relative_position L)) = 0"
  by (simp add: ComputeRelativePosition_fail [OF assms] ComputeDistance_zero)

theorem lookup_failure_zero_vector_witness:
  "\<not> fst (tracker_lost ''tracker_1'')
   \<and> length [7, 8, 9 :: real] = 3
   \<and> snd (ComputeRelativePosition tracker_lost ''tracker_1'' ''controller_1'' [7, 8, 9]
        blank_locals) = [0, 0, 0]
   \<and> ComputeDistance
       (snd (ComputeRelativePosition tracker_lost ''tracker_1'' ''controller_1'' [7, 8, 9]
          blank_locals)) = 0"
proof -
  have gone: "\<not> fst (tracker_lost ''tracker_1'')"
    by (simp add: tracker_lost_def)
  have lost: "\<not> fst (tracker_lost ''tracker_1'') \<or> \<not> fst (tracker_lost ''controller_1'')"
    using gone by simp
  have len: "length [7, 8, 9 :: real] = 3" by simp
  have shape: "xs = [0, 0, 0]"
    if "xs ! 0 = 0 \<and> xs ! 1 = 0 \<and> xs ! 2 = 0 \<and> length xs = 3 \<and> ComputeDistance xs = 0"
    for xs :: "real list"
  proof -
    from that obtain r0 r1 r2 where "xs = [r0, r1, r2]" by (blast elim: length3_shape)
    with that show ?thesis by (simp add: numeral_2_eq_2)
  qed
  from lookup_failure_zero_vector [OF lost len, of blank_locals]
  show ?thesis using shape gone by simp
qed

end
